theory Spec2Isabelle
  imports Main
begin

section \<open>JavaScript values and operators the components use\<close>

text \<open>
  A checkbox \<^verbatim>\<open>value\<close> has the TypeScript type \<^verbatim>\<open>string | number\<close> and may be left out
  (\<^verbatim>\<open>undefined\<close>). The type of numbers is a parameter \<open>'n\<close>, and so is the rendering of a
  number as a string (the first argument of \<open>String_js\<close>): what \<^verbatim>\<open>String(n)\<close> prints for a
  number is fixed by the language, not by this repository, and no theorem below depends on it.
\<close>

datatype 'n jsvalue = JUndefined | JString string | JNumber 'n

fun String_js :: "('n \<Rightarrow> string) \<Rightarrow> 'n jsvalue \<Rightarrow> string" where
  "String_js numstr JUndefined = ''undefined''"
| "String_js numstr (JString s) = s"
| "String_js numstr (JNumber n) = numstr n"

text \<open>
  An optional boolean (\<^verbatim>\<open>boolean | undefined\<close>) is a \<open>bool option\<close>, \<open>None\<close> for
  \<^verbatim>\<open>undefined\<close>. \<open>truthy x\<close> is \<^verbatim>\<open>!!x\<close>, which is also the test of \<^verbatim>\<open>x ? a : b\<close> and of
  \<^verbatim>\<open>if (x)\<close>; \<open>nullish a b\<close> is \<^verbatim>\<open>a ?? b\<close>; \<open>optional_chain c f\<close> is \<^verbatim>\<open>c?.f\<close>;
  \<open>some_js\<close> is \<^verbatim>\<open>Array.prototype.some\<close>.
\<close>

definition truthy :: "bool option \<Rightarrow> bool" where
  "truthy x = (case x of None \<Rightarrow> False | Some b \<Rightarrow> b)"

definition nullish :: "'a option \<Rightarrow> 'a option \<Rightarrow> 'a option" where
  "nullish a b = (case a of None \<Rightarrow> b | Some v \<Rightarrow> Some v)"

definition optional_chain :: "'c option \<Rightarrow> ('c \<Rightarrow> 'a option) \<Rightarrow> 'a option" where
  "optional_chain c f = (case c of None \<Rightarrow> None | Some x \<Rightarrow> f x)"

primrec some_js :: "('a \<Rightarrow> bool) \<Rightarrow> 'a list \<Rightarrow> bool" where
  "some_js p [] = False"
| "some_js p (x # xs) = (if p x then True else some_js p xs)"

text \<open>
  One concrete rendering of numbers, for the examples: an integer Number of magnitude below
  \<open>10\<^sup>2\<^sup>1\<close> prints as its decimal numeral.
\<close>

fun digit_char :: "nat \<Rightarrow> char" where
  "digit_char n = ''0123456789'' ! (n mod 10)"

fun decimal :: "nat \<Rightarrow> string" where
  "decimal n = (if n < 10 then [digit_char n] else decimal (n div 10) @ [digit_char (n mod 10)])"

definition Number_toString :: "int \<Rightarrow> string" where
  "Number_toString i = (if i < 0 then CHR ''-'' # decimal (nat (- i)) else decimal (nat i))"

section \<open>Events and user-supplied handlers\<close>

text \<open>
  Of a DOM event the components read \<^verbatim>\<open>event.target.checked\<close> and call
  \<^verbatim>\<open>event.preventDefault()\<close>; \<open>defaultPrevented\<close> records that call.

  A callback supplied by the application is a transformer of the application's own state
  \<open>'w\<close> (the world), given its argument. Calling it is applying it; a handler that is not
  called leaves the world as it is, whatever the handler is. Handlers that throw are outside
  the model.
\<close>

record Event =
  target_checked :: bool
  defaultPrevented :: bool

definition preventDefault :: "Event \<Rightarrow> Event" where
  "preventDefault e = e\<lparr>defaultPrevented := True\<rparr>"

type_synonym ('e, 'w) handler = "'e \<Rightarrow> 'w \<Rightarrow> 'w"

text \<open>\<open>optional_call h a\<close> is the optional call \<^verbatim>\<open>h?.(a)\<close>.\<close>

definition optional_call :: "('a, 'w) handler option \<Rightarrow> 'a \<Rightarrow> 'w \<Rightarrow> 'w" where
  "optional_call h a w = (case h of None \<Rightarrow> w | Some f \<Rightarrow> f a w)"

text \<open>
  Modelled from the spec: \<^verbatim>\<open>callHandler\<close> and \<^verbatim>\<open>callAllHandlers\<close> of \<^verbatim>\<open>utils/function\<close> are
  imported by the components but are not among the source files. The spec: missing optional
  callbacks are "handled via safe-no-op defaults rather than errors", and the handlers are
  invoked "in order: group-level change handler (if grouped) then item-level \<^verbatim>\<open>onChange\<close>
  handler", that is, in the order of the arguments, each with the same event.
\<close>

definition callHandler :: "('e, 'w) handler option \<Rightarrow> 'e \<Rightarrow> 'w \<Rightarrow> 'w" where
  "callHandler h e w = (case h of None \<Rightarrow> w | Some f \<Rightarrow> f e w)"

fun callAllHandlers :: "('e, 'w) handler option list \<Rightarrow> 'e \<Rightarrow> 'w \<Rightarrow> 'w" where
  "callAllHandlers [] e w = w"
| "callAllHandlers (h # hs) e w = callAllHandlers hs e (callHandler h e w)"

text \<open>What an event handler of a component leaves behind: the event, the component's own
  state and the world.\<close>

record ('s, 'w) After =
  event_after :: Event
  state_after :: 's
  world_after :: 'w

section \<open>Checkbox\<close>

text \<open>
  Modelled from the spec: the declarations of the group context (\<^verbatim>\<open>./checkbox-group\<close>) and
  of the result of \<^verbatim>\<open>useFormControl\<close> (\<^verbatim>\<open>../form-control/use-form-control\<close>) are not among
  the source files. The spec lists what a group exposes, "\<^verbatim>\<open>{ value: ordered collection of
  selected identifiers, disabled, required, invalid, readOnly, size, variant, colorScheme,
  name, onChange(value) }\<close>", and what the form-control collaborator gives,
  "\<^verbatim>\<open>{ id, required, disabled, invalid, readOnly, onFocus, onBlur }\<close>"; the fields the
  checkbox reads for its state are kept (\<^verbatim>\<open>checkboxGroupContext.state.value\<close>, \<open>.required\<close>,
  \<open>.disabled\<close>, \<open>.invalid\<close>, \<open>.readOnly\<close>, \<^verbatim>\<open>checkboxGroupContext.onChange\<close>, and
  \<^verbatim>\<open>formControlProps.required\<close>, \<open>.disabled\<close>, \<open>.invalid\<close>, \<open>.readOnly\<close>). The group's
  collection may be \<^verbatim>\<open>null\<close> or \<^verbatim>\<open>undefined\<close> (the checkbox tests \<^verbatim>\<open>!= null\<close>): \<open>None\<close>.
  The result of \<^verbatim>\<open>useFormControl(inputProps)\<close> is a parameter of every function below.
\<close>

record 'n CheckboxGroupState =
  value' :: "'n jsvalue list option"
  required :: "bool option"
  disabled :: "bool option"
  invalid :: "bool option"
  readOnly :: "bool option"

record ('n, 'w) CheckboxGroupContext =
  state :: "'n CheckboxGroupState"
  onChange :: "(Event, 'w) handler option"

record FormControlProps =
  required :: "bool option"
  disabled :: "bool option"
  invalid :: "bool option"
  readOnly :: "bool option"

text \<open>The props of \<^verbatim>\<open>CheckboxOptions\<close> that the state logic reads (\<open>local\<close> and
  \<open>inputProps\<close> after \<^verbatim>\<open>splitProps\<close>).\<close>

record ('n, 'w) CheckboxProps =
  value' :: "'n jsvalue"
  checked :: "bool option"
  defaultChecked :: "bool option"
  indeterminate :: "bool option"
  required :: "bool option"
  disabled :: "bool option"
  readOnly :: "bool option"
  invalid :: "bool option"
  onChange :: "(Event, 'w) handler option"

text \<open>
  \<^verbatim>\<open>const required = () => formControlProps.required ?? checkboxGroupContext?.state.required;\<close>
  and its three siblings.
\<close>

definition Checkbox_required :: "FormControlProps \<Rightarrow> ('n, 'w) CheckboxGroupContext option \<Rightarrow> bool option" where
  "Checkbox_required fc ctx =
     nullish (FormControlProps.required fc)
       (optional_chain ctx (\<lambda>c. CheckboxGroupState.required (state c)))"

definition Checkbox_disabled :: "FormControlProps \<Rightarrow> ('n, 'w) CheckboxGroupContext option \<Rightarrow> bool option" where
  "Checkbox_disabled fc ctx =
     nullish (FormControlProps.disabled fc)
       (optional_chain ctx (\<lambda>c. CheckboxGroupState.disabled (state c)))"

definition Checkbox_invalid :: "FormControlProps \<Rightarrow> ('n, 'w) CheckboxGroupContext option \<Rightarrow> bool option" where
  "Checkbox_invalid fc ctx =
     nullish (FormControlProps.invalid fc)
       (optional_chain ctx (\<lambda>c. CheckboxGroupState.invalid (state c)))"

definition Checkbox_readOnly :: "FormControlProps \<Rightarrow> ('n, 'w) CheckboxGroupContext option \<Rightarrow> bool option" where
  "Checkbox_readOnly fc ctx =
     nullish (FormControlProps.readOnly fc)
       (optional_chain ctx (\<lambda>c. CheckboxGroupState.readOnly (state c)))"

text \<open>
  \<^verbatim>\<open>const [checkedState, setCheckedState] = createSignal(!!local.defaultChecked);\<close>
  The signal is the component's own state, a \<open>bool\<close>; \<open>Checkbox_checkedState_init\<close> is its
  value at creation.
\<close>

definition Checkbox_checkedState_init :: "('n, 'w) CheckboxProps \<Rightarrow> bool" where
  "Checkbox_checkedState_init props = truthy (CheckboxProps.defaultChecked props)"

text \<open>\<^verbatim>\<open>const isControlled = () => local.checked !== undefined;\<close>\<close>

definition Checkbox_isControlled :: "('n, 'w) CheckboxProps \<Rightarrow> bool" where
  "Checkbox_isControlled props = (CheckboxProps.checked props \<noteq> None)"

text \<open>
  \<^verbatim>\<open>
  const checked = () => {
    if (checkboxGroupContext) {
      const checkboxGroupValue = checkboxGroupContext.state.value;
      return checkboxGroupValue != null
        ? checkboxGroupValue.some(val => String(inputProps.value) === String(val))
        : undefined;
    }
    // Not in CheckboxGroup
    return isControlled() ? !!local.checked : checkedState();
  };\<close>
  The result is a boolean or \<^verbatim>\<open>undefined\<close>.
\<close>

definition Checkbox_checked ::
  "('n \<Rightarrow> string) \<Rightarrow> ('n, 'w) CheckboxProps \<Rightarrow> ('n, 'w) CheckboxGroupContext option \<Rightarrow> bool \<Rightarrow> bool option" where
  "Checkbox_checked numstr props ctx checkedState =
     (case ctx of
        Some c \<Rightarrow>
          (case CheckboxGroupState.value' (state c) of
             Some checkboxGroupValue \<Rightarrow>
               Some (some_js (\<lambda>val. String_js numstr (CheckboxProps.value' props) = String_js numstr val)
                       checkboxGroupValue)
           | None \<Rightarrow> None)
      | None \<Rightarrow>
          Some (if Checkbox_isControlled props then truthy (CheckboxProps.checked props)
                else checkedState))"

text \<open>The data and ARIA attributes: \<^verbatim>\<open>x() ? "" : undefined\<close> and \<^verbatim>\<open>x() ? true : undefined\<close>.
  An attribute whose value is \<^verbatim>\<open>undefined\<close> (\<open>None\<close>) is not rendered.\<close>

definition data_attr :: "bool option \<Rightarrow> string option" where
  "data_attr x = (if truthy x then Some [] else None)"

definition aria_attr :: "bool option \<Rightarrow> bool option" where
  "aria_attr x = (if truthy x then Some True else None)"

definition Checkbox_dataIndeterminate :: "('n, 'w) CheckboxProps \<Rightarrow> string option" where
  "Checkbox_dataIndeterminate props = data_attr (CheckboxProps.indeterminate props)"

definition Checkbox_dataChecked ::
  "('n \<Rightarrow> string) \<Rightarrow> ('n, 'w) CheckboxProps \<Rightarrow> ('n, 'w) CheckboxGroupContext option \<Rightarrow> bool \<Rightarrow> string option" where
  "Checkbox_dataChecked numstr props ctx checkedState =
     data_attr (Checkbox_checked numstr props ctx checkedState)"

definition Checkbox_ariaRequired :: "FormControlProps \<Rightarrow> ('n, 'w) CheckboxGroupContext option \<Rightarrow> bool option" where
  "Checkbox_ariaRequired fc ctx = aria_attr (Checkbox_required fc ctx)"

definition Checkbox_ariaDisabled :: "FormControlProps \<Rightarrow> ('n, 'w) CheckboxGroupContext option \<Rightarrow> bool option" where
  "Checkbox_ariaDisabled fc ctx = aria_attr (Checkbox_disabled fc ctx)"

definition Checkbox_ariaInvalid :: "FormControlProps \<Rightarrow> ('n, 'w) CheckboxGroupContext option \<Rightarrow> bool option" where
  "Checkbox_ariaInvalid fc ctx = aria_attr (Checkbox_invalid fc ctx)"

definition Checkbox_ariaReadonly :: "FormControlProps \<Rightarrow> ('n, 'w) CheckboxGroupContext option \<Rightarrow> bool option" where
  "Checkbox_ariaReadonly fc ctx = aria_attr (Checkbox_readOnly fc ctx)"

text \<open>
  \<^verbatim>\<open>
  const onChange = event => {
    if (inputProps.readOnly || inputProps.disabled) {
      event.preventDefault();
      return;
    }
    if (!isControlled()) {
      const target = event.target as HTMLInputElement;
      setCheckedState(target.checked);
    }
    callAllHandlers(checkboxGroupContext?.onChange, local.onChange)(event);
  };\<close>
  The guard reads the props \<^verbatim>\<open>inputProps.readOnly\<close> and \<^verbatim>\<open>inputProps.disabled\<close>.
\<close>

definition Checkbox_suppressed :: "('n, 'w) CheckboxProps \<Rightarrow> bool" where
  "Checkbox_suppressed props =
     (truthy (CheckboxProps.readOnly props) \<or> truthy (CheckboxProps.disabled props))"

definition Checkbox_onChange ::
  "('n, 'w) CheckboxProps \<Rightarrow> ('n, 'w) CheckboxGroupContext option \<Rightarrow> Event \<Rightarrow> bool \<Rightarrow> 'w
     \<Rightarrow> (bool, 'w) After" where
  "Checkbox_onChange props ctx event checkedState w =
     (if Checkbox_suppressed props
      then \<lparr>event_after = preventDefault event, state_after = checkedState, world_after = w\<rparr>
      else
        \<lparr>event_after = event,
         state_after = (if Checkbox_isControlled props then checkedState else target_checked event),
         world_after =
           callAllHandlers
             [optional_chain ctx CheckboxGroupContext.onChange, CheckboxProps.onChange props]
             event w\<rparr>)"

text \<open>A sequence of change events on one checkbox, the props and the context unchanged.\<close>

fun Checkbox_interactions ::
  "('n, 'w) CheckboxProps \<Rightarrow> ('n, 'w) CheckboxGroupContext option \<Rightarrow> Event list \<Rightarrow> bool \<Rightarrow> 'w
     \<Rightarrow> bool \<times> 'w" where
  "Checkbox_interactions props ctx [] checkedState w = (checkedState, w)"
| "Checkbox_interactions props ctx (event # events) checkedState w =
     Checkbox_interactions props ctx events
       (state_after (Checkbox_onChange props ctx event checkedState w))
       (world_after (Checkbox_onChange props ctx event checkedState w))"

text \<open>
  The icon inside the control:
  \<^verbatim>\<open>
  <Switch>
    <Match when={inputProps.indeterminate}>{local.iconIndeterminate}</Match>
    <Match when={checked() && !inputProps.indeterminate}>{local.iconChecked}</Match>
  </Switch>\<close>
  The first \<open>Match\<close> whose condition is truthy renders; none renders nothing.
\<close>

datatype icon = iconIndeterminate | iconChecked

definition Checkbox_icon ::
  "('n \<Rightarrow> string) \<Rightarrow> ('n, 'w) CheckboxProps \<Rightarrow> ('n, 'w) CheckboxGroupContext option \<Rightarrow> bool \<Rightarrow> icon option" where
  "Checkbox_icon numstr props ctx checkedState =
     (if truthy (CheckboxProps.indeterminate props) then Some iconIndeterminate
      else if truthy (Checkbox_checked numstr props ctx checkedState) \<and> \<not> truthy (CheckboxProps.indeterminate props)
        then Some iconChecked
      else None)"

text \<open>The attributes of the \<^verbatim>\<open><input type="checkbox">\<close> that carry the resolved state.\<close>

record CheckboxInput =
  checked :: "bool option"
  required :: "bool option"
  disabled :: "bool option"
  readOnly :: "bool option"
  aria_required :: "bool option"
  aria_disabled :: "bool option"
  aria_invalid :: "bool option"
  aria_readonly :: "bool option"

definition Checkbox_input ::
  "('n \<Rightarrow> string) \<Rightarrow> ('n, 'w) CheckboxProps \<Rightarrow> FormControlProps \<Rightarrow> ('n, 'w) CheckboxGroupContext option
     \<Rightarrow> bool \<Rightarrow> CheckboxInput" where
  "Checkbox_input numstr props fc ctx checkedState =
     \<lparr>CheckboxInput.checked = Checkbox_checked numstr props ctx checkedState,
      CheckboxInput.required = Checkbox_required fc ctx,
      CheckboxInput.disabled = Checkbox_disabled fc ctx,
      CheckboxInput.readOnly = Checkbox_readOnly fc ctx,
      CheckboxInput.aria_required = Checkbox_ariaRequired fc ctx,
      CheckboxInput.aria_disabled = Checkbox_ariaDisabled fc ctx,
      CheckboxInput.aria_invalid = Checkbox_ariaInvalid fc ctx,
      CheckboxInput.aria_readonly = Checkbox_ariaReadonly fc ctx\<rparr>"

section \<open>SwitchPrimitive\<close>

text \<open>The props of \<^verbatim>\<open>SwitchPrimitiveOptions\<close> that the state logic reads. \<^verbatim>\<open>onChange\<close> takes
  the new checked value, \<^verbatim>\<open>onClick\<close> the event.\<close>

record 'w SwitchPrimitiveProps =
  checked :: "bool option"
  defaultChecked :: "bool option"
  onChange :: "(bool, 'w) handler option"
  onClick :: "(Event, 'w) handler option"

text \<open>
  The store of \<^verbatim>\<open>createStore<SwitchPrimitiveState>\<close>: its two plain fields, \<^verbatim>\<open>_checked\<close>
  (here \<open>private_checked\<close>) and \<^verbatim>\<open>isFocused\<close>, are the component's state; its getters are
  the functions that follow.
  \<^verbatim>\<open>
  _checked: !!props.defaultChecked,
  isFocused: false,
  get isControlled() { return props.checked !== undefined; },
  get checked() { return this.isControlled ? !!props.checked : this._checked; },
  get required() { return formControlProps.required; },   // disabled, invalid, readOnly alike
  get ["aria-required"]() { return this.required ? true : undefined; },   // and its siblings
  get ["data-checked"]() { return this.checked ? "" : undefined; },\<close>
\<close>

record SwitchPrimitiveStore =
  private_checked :: bool
  isFocused :: bool

definition SwitchPrimitive_createStore :: "'w SwitchPrimitiveProps \<Rightarrow> SwitchPrimitiveStore" where
  "SwitchPrimitive_createStore props =
     \<lparr>private_checked = truthy (SwitchPrimitiveProps.defaultChecked props), isFocused = False\<rparr>"

definition SwitchPrimitive_isControlled :: "'w SwitchPrimitiveProps \<Rightarrow> bool" where
  "SwitchPrimitive_isControlled props = (SwitchPrimitiveProps.checked props \<noteq> None)"

definition SwitchPrimitive_checked :: "'w SwitchPrimitiveProps \<Rightarrow> SwitchPrimitiveStore \<Rightarrow> bool" where
  "SwitchPrimitive_checked props store =
     (if SwitchPrimitive_isControlled props then truthy (SwitchPrimitiveProps.checked props)
      else private_checked store)"

definition SwitchPrimitive_required :: "FormControlProps \<Rightarrow> bool option" where
  "SwitchPrimitive_required fc = FormControlProps.required fc"

definition SwitchPrimitive_disabled :: "FormControlProps \<Rightarrow> bool option" where
  "SwitchPrimitive_disabled fc = FormControlProps.disabled fc"

definition SwitchPrimitive_invalid :: "FormControlProps \<Rightarrow> bool option" where
  "SwitchPrimitive_invalid fc = FormControlProps.invalid fc"

definition SwitchPrimitive_readOnly :: "FormControlProps \<Rightarrow> bool option" where
  "SwitchPrimitive_readOnly fc = FormControlProps.readOnly fc"

definition SwitchPrimitive_aria_required :: "FormControlProps \<Rightarrow> bool option" where
  "SwitchPrimitive_aria_required fc = aria_attr (SwitchPrimitive_required fc)"

definition SwitchPrimitive_aria_disabled :: "FormControlProps \<Rightarrow> bool option" where
  "SwitchPrimitive_aria_disabled fc = aria_attr (SwitchPrimitive_disabled fc)"

definition SwitchPrimitive_aria_invalid :: "FormControlProps \<Rightarrow> bool option" where
  "SwitchPrimitive_aria_invalid fc = aria_attr (SwitchPrimitive_invalid fc)"

definition SwitchPrimitive_aria_readonly :: "FormControlProps \<Rightarrow> bool option" where
  "SwitchPrimitive_aria_readonly fc = aria_attr (SwitchPrimitive_readOnly fc)"

definition SwitchPrimitive_data_checked :: "'w SwitchPrimitiveProps \<Rightarrow> SwitchPrimitiveStore \<Rightarrow> string option" where
  "SwitchPrimitive_data_checked props store = data_attr (Some (SwitchPrimitive_checked props store))"

text \<open>
  \<^verbatim>\<open>
  const onClick = event => {
    if (state.readOnly || state.disabled) {
      event.preventDefault();
      return;
    }
    const newValue = !state.checked;
    if (!state.isControlled) {
      setState("_checked", newValue);
    }
    local.onChange?.(newValue);
    callHandler(local.onClick)(event);
  };\<close>
\<close>

definition SwitchPrimitive_suppressed :: "FormControlProps \<Rightarrow> bool" where
  "SwitchPrimitive_suppressed fc =
     (truthy (SwitchPrimitive_readOnly fc) \<or> truthy (SwitchPrimitive_disabled fc))"

definition SwitchPrimitive_onClick ::
  "'w SwitchPrimitiveProps \<Rightarrow> FormControlProps \<Rightarrow> Event \<Rightarrow> SwitchPrimitiveStore \<Rightarrow> 'w
     \<Rightarrow> (SwitchPrimitiveStore, 'w) After" where
  "SwitchPrimitive_onClick props fc event store w =
     (if SwitchPrimitive_suppressed fc
      then \<lparr>event_after = preventDefault event, state_after = store, world_after = w\<rparr>
      else
        (let newValue = \<not> SwitchPrimitive_checked props store in
         \<lparr>event_after = event,
          state_after =
            (if SwitchPrimitive_isControlled props then store
             else store\<lparr>private_checked := newValue\<rparr>),
          world_after =
            callHandler (SwitchPrimitiveProps.onClick props) event
              (optional_call (SwitchPrimitiveProps.onChange props) newValue w)\<rparr>))"

text \<open>A sequence of clicks on one switch, the props unchanged.\<close>

fun SwitchPrimitive_clicks ::
  "'w SwitchPrimitiveProps \<Rightarrow> FormControlProps \<Rightarrow> Event list \<Rightarrow> SwitchPrimitiveStore \<Rightarrow> 'w
     \<Rightarrow> SwitchPrimitiveStore \<times> 'w" where
  "SwitchPrimitive_clicks props fc [] store w = (store, w)"
| "SwitchPrimitive_clicks props fc (event # events) store w =
     SwitchPrimitive_clicks props fc events
       (state_after (SwitchPrimitive_onClick props fc event store w))
       (world_after (SwitchPrimitive_onClick props fc event store w))"

text \<open>
  The ARIA attributes of the rendered \<^verbatim>\<open><hope.button role="switch">\<close>:
  \<^verbatim>\<open>
  disabled={state.disabled}
  aria-checked={state.checked}
  aria-required={state["aria-required"]}
  aria-disabled={state["aria-disabled"]}
  aria-invalid={state["aria-invalid"]}
  aria-readonly={state["aria-readonly"]}\<close>
  \<^verbatim>\<open>state.checked\<close> is always a boolean, so \<^verbatim>\<open>aria-checked\<close> always has a value.
\<close>

record SwitchButton =
  disabled :: "bool option"
  aria_checked :: "bool option"
  aria_required :: "bool option"
  aria_disabled :: "bool option"
  aria_invalid :: "bool option"
  aria_readonly :: "bool option"

definition SwitchPrimitive_button ::
  "'w SwitchPrimitiveProps \<Rightarrow> FormControlProps \<Rightarrow> SwitchPrimitiveStore \<Rightarrow> SwitchButton" where
  "SwitchPrimitive_button props fc store =
     \<lparr>SwitchButton.disabled = SwitchPrimitive_disabled fc,
      SwitchButton.aria_checked = Some (SwitchPrimitive_checked props store),
      SwitchButton.aria_required = SwitchPrimitive_aria_required fc,
      SwitchButton.aria_disabled = SwitchPrimitive_aria_disabled fc,
      SwitchButton.aria_invalid = SwitchPrimitive_aria_invalid fc,
      SwitchButton.aria_readonly = SwitchPrimitive_aria_readonly fc\<rparr>"

subsection \<open>The context accessor\<close>

text \<open>
  \<^verbatim>\<open>
  const SwitchPrimitiveContext = createContext<SwitchPrimitiveContextValue>();

  export function useSwitcPrimitivehContext() {
    const context = useContext(SwitchPrimitiveContext);
    if (!context) {
      throw new Error("[Hope UI]: useSwitcPrimitivehContext must be used within a
                       `<SwitchPrimitive />` component");
    }
    return context;
  }\<close>
  The context is created with no default value, so \<^verbatim>\<open>useContext\<close> gives the value of the
  nearest enclosing provider, or \<^verbatim>\<open>undefined\<close> when there is none. The enclosing providers
  of the caller are a list of their values, the innermost first. A context value is an
  object, hence truthy. The thrown \<open>Error\<close> is \<open>Inl\<close> of its message.
\<close>

datatype error = Error string

definition useContext :: "'c list \<Rightarrow> 'c option" where
  "useContext providers = (case providers of [] \<Rightarrow> None | c # _ \<Rightarrow> Some c)"

definition useSwitcPrimitivehContext :: "'c list \<Rightarrow> error + 'c" where
  "useSwitcPrimitivehContext providers =
     (case useContext providers of
        None \<Rightarrow>
          Inl (Error ''[Hope UI]: useSwitcPrimitivehContext must be used within a `<SwitchPrimitive />` component'')
      | Some c \<Rightarrow> Inr c)"

section \<open>createKeyboard\<close>

text \<open>
  \<^verbatim>\<open>
  export function createKeyboard(props: CreateKeyboardProps): KeyboardResult {
    const onKeyDown = event => {
      if (props.isDisabled) { return; }
      props.onKeyDown?.(event);
    };
    const onKeyUp = event => {
      if (props.isDisabled) { return; }
      props.onKeyUp?.(event);
    };
    const keyboardProps = createMemo(() => ({ onKeyDown, onKeyUp }));
    return { keyboardProps };
  }\<close>
  The keyboard event is of any type \<open>'e\<close>: the function only passes it on.
\<close>

record ('e, 'w) CreateKeyboardProps =
  isDisabled :: "bool option"
  onKeyDown :: "('e, 'w) handler option"
  onKeyUp :: "('e, 'w) handler option"

record ('e, 'w) keyboardElementProps =
  onKeyDown :: "('e, 'w) handler"
  onKeyUp :: "('e, 'w) handler"

record ('e, 'w) KeyboardResult =
  keyboardProps :: "('e, 'w) keyboardElementProps"

definition createKeyboard :: "('e, 'w) CreateKeyboardProps \<Rightarrow> ('e, 'w) KeyboardResult" where
  "createKeyboard props =
     \<lparr>keyboardProps =
        \<lparr>keyboardElementProps.onKeyDown =
           (\<lambda>event w. if truthy (CreateKeyboardProps.isDisabled props) then w
                       else optional_call (CreateKeyboardProps.onKeyDown props) event w),
         keyboardElementProps.onKeyUp =
           (\<lambda>event w. if truthy (CreateKeyboardProps.isDisabled props) then w
                       else optional_call (CreateKeyboardProps.onKeyUp props) event w)\<rparr>\<rparr>"

section \<open>Inputs of the examples\<close>

text \<open>A handler that writes its name to a log, the world of the examples.\<close>

definition logger :: "string \<Rightarrow> ('e, string list) handler" where
  "logger tag e w = w @ [tag]"

text \<open>A checkbox with no prop set, a group that exposes nothing, a form control that gives
  nothing and a switch with no prop set; the examples change the fields they need.\<close>

definition plain_checkbox :: "(int, string list) CheckboxProps" where
  "plain_checkbox =
     \<lparr>CheckboxProps.value' = JUndefined, checked = None, defaultChecked = None,
      indeterminate = None, required = None, disabled = None, readOnly = None, invalid = None,
      onChange = None\<rparr>"

definition plain_group_state :: "int CheckboxGroupState" where
  "plain_group_state =
     \<lparr>CheckboxGroupState.value' = None, required = None, disabled = None, invalid = None,
      readOnly = None\<rparr>"

definition plain_group :: "(int, string list) CheckboxGroupContext" where
  "plain_group = \<lparr>state = plain_group_state, onChange = None\<rparr>"

definition plain_formControl :: FormControlProps where
  "plain_formControl =
     \<lparr>FormControlProps.required = None, disabled = None, invalid = None, readOnly = None\<rparr>"

definition plain_switch :: "string list SwitchPrimitiveProps" where
  "plain_switch =
     \<lparr>SwitchPrimitiveProps.checked = None, defaultChecked = None, onChange = None, onClick = None\<rparr>"

text \<open>A change event whose target is checked or not, and a click.\<close>

definition change :: "bool \<Rightarrow> Event" where
  "change b = \<lparr>target_checked = b, defaultPrevented = False\<rparr>"

definition click :: Event where
  "click = \<lparr>target_checked = False, defaultPrevented = False\<rparr>"

text \<open>The group of the spec's example, whose collection is \<^verbatim>\<open>["a", "b"]\<close>; and a read-only group
  with an empty collection and a change handler.\<close>

definition ab_group :: "(int, string list) CheckboxGroupContext" where
  "ab_group =
     plain_group\<lparr>state := plain_group_state\<lparr>CheckboxGroupState.value' := Some [JString ''a'', JString ''b'']\<rparr>\<rparr>"

definition readOnly_group :: "(int, string list) CheckboxGroupContext" where
  "readOnly_group =
     \<lparr>state = plain_group_state\<lparr>CheckboxGroupState.value' := Some [], CheckboxGroupState.readOnly := Some True\<rparr>,
      onChange = Some (logger ''group'')\<rparr>"

section \<open>Basic facts\<close>

lemmas plain_defs = plain_checkbox_def plain_group_state_def plain_group_def plain_formControl_def
  plain_switch_def change_def click_def

lemma truthy_iff: "truthy x = (x = Some True)"
  by (cases x) (simp_all add: truthy_def)

lemma aria_attr_cases: "aria_attr x = (if x = Some True then Some True else None)"
  by (simp add: aria_attr_def truthy_iff)

lemma some_js_image: "some_js (\<lambda>v. f x = f v) vs = (f x \<in> f ` set vs)"
  by (induction vs) auto

text \<open>Both guards, as the handlers test them: the checkbox on its own props, the switch on
  the state its store resolves.\<close>

lemma Checkbox_onChange_guard:
  "truthy (CheckboxProps.readOnly props) \<or> truthy (CheckboxProps.disabled props) \<Longrightarrow>
   Checkbox_onChange props ctx event checkedState w
     = \<lparr>event_after = preventDefault event, state_after = checkedState, world_after = w\<rparr>"
  by (simp add: Checkbox_onChange_def Checkbox_suppressed_def)

lemma SwitchPrimitive_onClick_guard:
  "truthy (SwitchPrimitive_readOnly fc) \<or> truthy (SwitchPrimitive_disabled fc) \<Longrightarrow>
   SwitchPrimitive_onClick props fc event store w
     = \<lparr>event_after = preventDefault event, state_after = store, world_after = w\<rparr>"
  by (simp add: SwitchPrimitive_onClick_def SwitchPrimitive_suppressed_def)

text \<open>In controlled mode no event changes the component's own state.\<close>

lemma Checkbox_onChange_controlled:
  "Checkbox_isControlled props \<Longrightarrow>
   state_after (Checkbox_onChange props ctx event checkedState w) = checkedState"
  by (simp add: Checkbox_onChange_def)

lemma Checkbox_interactions_controlled:
  "Checkbox_isControlled props \<Longrightarrow>
   fst (Checkbox_interactions props ctx events checkedState w) = checkedState"
  by (induction events arbitrary: checkedState w) (simp_all add: Checkbox_onChange_controlled)

lemma SwitchPrimitive_onClick_controlled:
  "SwitchPrimitive_isControlled props \<Longrightarrow>
   state_after (SwitchPrimitive_onClick props fc event store w) = store"
  by (simp add: SwitchPrimitive_onClick_def Let_def)

lemma SwitchPrimitive_clicks_controlled:
  "SwitchPrimitive_isControlled props \<Longrightarrow>
   fst (SwitchPrimitive_clicks props fc events store w) = store"
  by (induction events arbitrary: store w) (simp_all add: SwitchPrimitive_onClick_controlled)

text \<open>An uncontrolled switch that is not suppressed negates \<^verbatim>\<open>_checked\<close> at every click.\<close>

lemma SwitchPrimitive_onClick_flips:
  assumes "\<not> SwitchPrimitive_isControlled props" and "\<not> SwitchPrimitive_suppressed fc"
  shows "private_checked (state_after (SwitchPrimitive_onClick props fc event store w))
           = (\<not> private_checked store)"
  using assms by (simp add: SwitchPrimitive_onClick_def SwitchPrimitive_checked_def Let_def)

lemma SwitchPrimitive_clicks_parity:
  assumes "\<not> SwitchPrimitive_isControlled props" and "\<not> SwitchPrimitive_suppressed fc"
  shows "private_checked (fst (SwitchPrimitive_clicks props fc events store w))
           = (if even (length events) then private_checked store else \<not> private_checked store)"
  using assms
proof (induction events arbitrary: store w)
  case Nil
  then show ?case by simp
next
  case (Cons event events)
  then show ?case
    by (simp add: SwitchPrimitive_onClick_flips)
qed

section \<open>The resolved checked state\<close>

text \<open>
  Claim C1, as the code has it. For a checkbox inside a group whose collection is not null,
  the resolved checked state is a boolean: whether some element of the collection has the
  same string form as the item's value (\<^verbatim>\<open>String(inputProps.value) === String(val)\<close>), that
  is, whether the stringified item value is among the stringified elements. A \<^verbatim>\<open>checked\<close>
  prop on the item changes nothing.
\<close>

theorem Checkbox_checked_in_group:
  assumes "CheckboxGroupState.value' (state ctx) = Some vs"
  shows "Checkbox_checked numstr props (Some ctx) checkedState
           = Some (String_js numstr (CheckboxProps.value' props) \<in> String_js numstr ` set vs)
       \<and> Checkbox_checked numstr (props\<lparr>CheckboxProps.checked := c\<rparr>) (Some ctx) checkedState
           = Checkbox_checked numstr props (Some ctx) checkedState"
  using assms by (simp add: Checkbox_checked_def some_js_image)

text \<open>The spec's example: in the group \<^verbatim>\<open>["a", "b"]\<close> the item \<^verbatim>\<open>"a"\<close> is checked although
  its prop says \<^verbatim>\<open>checked={false}\<close>, and the item \<^verbatim>\<open>"c"\<close> is not although its prop says
  \<^verbatim>\<open>checked={true}\<close>.\<close>

theorem Checkbox_checked_in_group_witness:
  "CheckboxGroupState.value' (state ab_group) = Some [JString ''a'', JString ''b'']
   \<and> Checkbox_checked Number_toString
       (plain_checkbox\<lparr>CheckboxProps.value' := JString ''a'', CheckboxProps.checked := Some False\<rparr>)
       (Some ab_group) False = Some True
   \<and> Checkbox_checked Number_toString
       (plain_checkbox\<lparr>CheckboxProps.value' := JString ''c'', CheckboxProps.checked := Some True\<rparr>)
       (Some ab_group) True = Some False"
proof -
  have h: "CheckboxGroupState.value' (state ab_group) = Some [JString ''a'', JString ''b'']"
    by (simp add: ab_group_def plain_defs)
  show ?thesis
    using h
      Checkbox_checked_in_group [OF h, of Number_toString
        "plain_checkbox\<lparr>CheckboxProps.value' := JString ''a'', CheckboxProps.checked := Some False\<rparr>" False]
      Checkbox_checked_in_group [OF h, of Number_toString
        "plain_checkbox\<lparr>CheckboxProps.value' := JString ''c'', CheckboxProps.checked := Some True\<rparr>" True]
    by (simp add: plain_defs)
qed

text \<open>
  Claim C1 as the spec words it, membership of the stringified item value in the collection
  (true for every member, false for every non-member), fails where strings and numbers meet.
  The item \<^verbatim>\<open>"1"\<close> in the group \<^verbatim>\<open>[1]\<close> is checked, yet the string \<^verbatim>\<open>"1"\<close> is not an element
  of \<^verbatim>\<open>[1]\<close>; the item \<^verbatim>\<open>1\<close> in the group \<^verbatim>\<open>["1"]\<close> is checked, yet the number is not an
  element of \<^verbatim>\<open>["1"]\<close>.
\<close>

theorem Checkbox_checked_in_group_counterexample:
  "Checkbox_checked Number_toString
       (plain_checkbox\<lparr>CheckboxProps.value' := JString ''1''\<rparr>)
       (Some (plain_group\<lparr>state := plain_group_state\<lparr>CheckboxGroupState.value' := Some [JNumber 1]\<rparr>\<rparr>))
       False = Some True
   \<and> JString (String_js Number_toString (JString ''1'')) \<notin> set [JNumber (1::int)]
   \<and> Checkbox_checked Number_toString
       (plain_checkbox\<lparr>CheckboxProps.value' := JNumber 1\<rparr>)
       (Some (plain_group\<lparr>state := plain_group_state\<lparr>CheckboxGroupState.value' := Some [JString ''1'']\<rparr>\<rparr>))
       False = Some True
   \<and> JNumber (1::int) \<notin> set [JString ''1'']"
  by (simp add: Checkbox_checked_def Number_toString_def plain_defs)

text \<open>
  Claim C2, as the code has it. A checkbox with no enclosing group context resolves to
  \<^verbatim>\<open>!!props.checked\<close> when the prop is given and to its internal state otherwise, and so does
  every switch; the internal state starts as \<^verbatim>\<open>!!defaultChecked\<close>; these results are
  booleans. A checkbox inside a group context whose collection is null resolves to
  \<^verbatim>\<open>undefined\<close>, whatever its props and its internal state.
\<close>

theorem checked_without_group:
  "Checkbox_checked numstr props None checkedState
     = Some (if CheckboxProps.checked props \<noteq> None then truthy (CheckboxProps.checked props)
             else checkedState)
   \<and> Checkbox_checkedState_init props = truthy (CheckboxProps.defaultChecked props)
   \<and> SwitchPrimitive_checked sprops store
     = (if SwitchPrimitiveProps.checked sprops \<noteq> None then truthy (SwitchPrimitiveProps.checked sprops)
        else private_checked store)
   \<and> private_checked (SwitchPrimitive_createStore sprops)
     = truthy (SwitchPrimitiveProps.defaultChecked sprops)
   \<and> Checkbox_checked numstr props
        (Some (ctx\<lparr>state := (state ctx)\<lparr>CheckboxGroupState.value' := None\<rparr>\<rparr>)) checkedState
     = None"
  by (simp add: Checkbox_checked_def Checkbox_isControlled_def Checkbox_checkedState_init_def
      SwitchPrimitive_checked_def SwitchPrimitive_isControlled_def SwitchPrimitive_createStore_def)

text \<open>
  Claim C2 as the spec words it covers every input to which no group context with a non-null
  collection applies, so also a checkbox in a group whose collection is null. There a
  checkbox with \<^verbatim>\<open>checked={true}\<close> resolves to \<^verbatim>\<open>undefined\<close>: not to \<^verbatim>\<open>!!props.checked\<close>, and
  not to a boolean.
\<close>

theorem Checkbox_checked_null_group_counterexample:
  "CheckboxGroupState.value' (state plain_group) = None
   \<and> Checkbox_checked Number_toString (plain_checkbox\<lparr>CheckboxProps.checked := Some True\<rparr>)
        (Some plain_group) False = None
   \<and> Checkbox_checked Number_toString (plain_checkbox\<lparr>CheckboxProps.checked := Some True\<rparr>)
        (Some plain_group) False \<noteq> Some (truthy (Some True))"
  by (simp add: Checkbox_checked_def plain_defs)

section \<open>Interaction\<close>

text \<open>
  Claim C3 says that an interaction is suppressed whenever the resolved \<^verbatim>\<open>readOnly\<close> or
  \<^verbatim>\<open>disabled\<close> is true. The switch tests the resolved state (\<open>SwitchPrimitive_onClick_guard\<close>);
  the checkbox tests its own props only. A checkbox with neither prop, in a group whose
  \<^verbatim>\<open>readOnly\<close> is true: the resolved \<^verbatim>\<open>readOnly\<close> is true, and a change event is not
  prevented, sets the internal state and reaches the group's and the item's handlers.
\<close>

theorem Checkbox_onChange_group_readOnly_not_suppressed:
  "Checkbox_readOnly plain_formControl (Some readOnly_group) = Some True
   \<and> Checkbox_onChange
        (plain_checkbox\<lparr>CheckboxProps.value' := JString ''a'',
                        CheckboxProps.onChange := Some (logger ''item'')\<rparr>)
        (Some readOnly_group) (change True) False []
     = \<lparr>event_after = change True, state_after = True, world_after = [''group'', ''item'']\<rparr>"
  by (simp add: Checkbox_readOnly_def Checkbox_onChange_def Checkbox_suppressed_def
      Checkbox_isControlled_def nullish_def optional_chain_def truthy_def callHandler_def
      logger_def readOnly_group_def plain_defs)

text \<open>
  Claim C4. An ungrouped checkbox with a \<^verbatim>\<open>checked\<close> prop keeps its internal state through
  one change event and through any sequence of them, and its resolved checked state is the
  prop before and after; a switch with a \<^verbatim>\<open>checked\<close> prop does the same through any
  sequence of clicks.
\<close>

theorem controlled_checked_frame:
  assumes "CheckboxProps.checked props = Some b"
  shows "state_after (Checkbox_onChange props None event checkedState w) = checkedState
       \<and> fst (Checkbox_interactions props None events checkedState w) = checkedState
       \<and> Checkbox_checked numstr props None checkedState = Some b
       \<and> Checkbox_checked numstr props None
            (state_after (Checkbox_onChange props None event checkedState w)) = Some b
       \<and> Checkbox_checked numstr props None
            (fst (Checkbox_interactions props None events checkedState w)) = Some b
       \<and> fst (SwitchPrimitive_clicks (sprops\<lparr>SwitchPrimitiveProps.checked := Some b\<rparr>) fc events store w)
           = store
       \<and> SwitchPrimitive_checked (sprops\<lparr>SwitchPrimitiveProps.checked := Some b\<rparr>) store = b"
proof -
  have ctl: "Checkbox_isControlled props"
    using assms by (simp add: Checkbox_isControlled_def)
  have res: "Checkbox_checked numstr props None s = Some b" for s
    using assms by (simp add: Checkbox_checked_def Checkbox_isControlled_def truthy_def)
  have sctl: "SwitchPrimitive_isControlled (sprops\<lparr>SwitchPrimitiveProps.checked := Some b\<rparr>)"
    by (simp add: SwitchPrimitive_isControlled_def)
  show ?thesis
    using Checkbox_onChange_controlled [OF ctl] Checkbox_interactions_controlled [OF ctl]
      SwitchPrimitive_clicks_controlled [OF sctl] res
    by (simp add: SwitchPrimitive_checked_def SwitchPrimitive_isControlled_def truthy_def)
qed

text \<open>A checkbox with \<^verbatim>\<open>checked={true}\<close> whose internal state is \<open>False\<close>: a change event
  whose target is unchecked leaves the internal state \<open>False\<close> and the resolved state
  \<open>True\<close>.\<close>

theorem controlled_checked_frame_witness:
  "CheckboxProps.checked (plain_checkbox\<lparr>CheckboxProps.checked := Some True\<rparr>) = Some True
   \<and> state_after (Checkbox_onChange (plain_checkbox\<lparr>CheckboxProps.checked := Some True\<rparr>) None
        (change False) False []) = False
   \<and> Checkbox_checked Number_toString (plain_checkbox\<lparr>CheckboxProps.checked := Some True\<rparr>) None
        (state_after (Checkbox_onChange (plain_checkbox\<lparr>CheckboxProps.checked := Some True\<rparr>) None
           (change False) False [])) = Some True"
proof -
  have h: "CheckboxProps.checked (plain_checkbox\<lparr>CheckboxProps.checked := Some True\<rparr>) = Some True"
    by simp
  show ?thesis
    using h
      controlled_checked_frame [OF h, of "change False" False "[]" "[]" Number_toString
        plain_switch plain_formControl "SwitchPrimitive_createStore plain_switch"]
    by simp
qed

text \<open>
  Claim C5, as the code has it. Ungrouped and with no \<^verbatim>\<open>checked\<close> prop, a checkbox and a
  switch resolve to \<^verbatim>\<open>!!defaultChecked\<close> before any interaction. Every click on the switch
  that is not suppressed negates the resolved state, so after a sequence of clicks it is the
  first state when their number is even and its negation when it is odd. A change event on
  the checkbox that is not suppressed sets the resolved state to \<^verbatim>\<open>event.target.checked\<close>: it
  is negated exactly when the event carries the negation, as the event of a user's toggle of
  the native input does.
\<close>

theorem uncontrolled_checked_toggle:
  assumes "CheckboxProps.checked props = None" and "\<not> Checkbox_suppressed props"
    and "SwitchPrimitiveProps.checked sprops = None" and "\<not> SwitchPrimitive_suppressed fc"
  shows "Checkbox_checked numstr props None (Checkbox_checkedState_init props)
           = Some (truthy (CheckboxProps.defaultChecked props))
       \<and> Checkbox_checked numstr props None
            (state_after (Checkbox_onChange props None event checkedState w))
           = Some (target_checked event)
       \<and> SwitchPrimitive_checked sprops (SwitchPrimitive_createStore sprops)
           = truthy (SwitchPrimitiveProps.defaultChecked sprops)
       \<and> SwitchPrimitive_checked sprops
            (state_after (SwitchPrimitive_onClick sprops fc mouse_event store w'))
           = (\<not> SwitchPrimitive_checked sprops store)
       \<and> SwitchPrimitive_checked sprops (fst (SwitchPrimitive_clicks sprops fc events store w'))
           = (if even (length events) then SwitchPrimitive_checked sprops store
              else \<not> SwitchPrimitive_checked sprops store)"
proof -
  have unc: "\<not> Checkbox_isControlled props"
    using assms(1) by (simp add: Checkbox_isControlled_def)
  have sunc: "\<not> SwitchPrimitive_isControlled sprops"
    using assms(3) by (simp add: SwitchPrimitive_isControlled_def)
  have a: "Checkbox_checked numstr props None s = Some s" for s
    using unc by (simp add: Checkbox_checked_def)
  have b: "state_after (Checkbox_onChange props None event checkedState w) = target_checked event"
    using unc assms(2) by (simp add: Checkbox_onChange_def)
  have c: "SwitchPrimitive_checked sprops s = private_checked s" for s
    using sunc by (simp add: SwitchPrimitive_checked_def)
  show ?thesis
    using SwitchPrimitive_onClick_flips [OF sunc assms(4)]
      SwitchPrimitive_clicks_parity [OF sunc assms(4)]
    by (simp add: a b c Checkbox_checkedState_init_def SwitchPrimitive_createStore_def)
qed

text \<open>With \<^verbatim>\<open>defaultChecked={true}\<close>: both start checked; a change event whose target is
  unchecked unchecks the checkbox; three clicks leave the switch unchecked.\<close>

theorem uncontrolled_checked_toggle_witness:
  "CheckboxProps.checked (plain_checkbox\<lparr>CheckboxProps.defaultChecked := Some True\<rparr>) = None
   \<and> \<not> Checkbox_suppressed (plain_checkbox\<lparr>CheckboxProps.defaultChecked := Some True\<rparr>)
   \<and> SwitchPrimitiveProps.checked (plain_switch\<lparr>SwitchPrimitiveProps.defaultChecked := Some True\<rparr>) = None
   \<and> \<not> SwitchPrimitive_suppressed plain_formControl
   \<and> Checkbox_checked Number_toString (plain_checkbox\<lparr>CheckboxProps.defaultChecked := Some True\<rparr>) None
        (Checkbox_checkedState_init (plain_checkbox\<lparr>CheckboxProps.defaultChecked := Some True\<rparr>))
       = Some True
   \<and> Checkbox_checked Number_toString (plain_checkbox\<lparr>CheckboxProps.defaultChecked := Some True\<rparr>) None
        (state_after (Checkbox_onChange (plain_checkbox\<lparr>CheckboxProps.defaultChecked := Some True\<rparr>) None
           (change False) True []))
       = Some False
   \<and> SwitchPrimitive_checked (plain_switch\<lparr>SwitchPrimitiveProps.defaultChecked := Some True\<rparr>)
        (SwitchPrimitive_createStore (plain_switch\<lparr>SwitchPrimitiveProps.defaultChecked := Some True\<rparr>))
       = True
   \<and> SwitchPrimitive_checked (plain_switch\<lparr>SwitchPrimitiveProps.defaultChecked := Some True\<rparr>)
        (fst (SwitchPrimitive_clicks (plain_switch\<lparr>SwitchPrimitiveProps.defaultChecked := Some True\<rparr>)
           plain_formControl [click, click, click]
           (SwitchPrimitive_createStore (plain_switch\<lparr>SwitchPrimitiveProps.defaultChecked := Some True\<rparr>))
           []))
       = False"
proof -
  let ?p = "plain_checkbox\<lparr>CheckboxProps.defaultChecked := Some True\<rparr>"
  let ?s = "plain_switch\<lparr>SwitchPrimitiveProps.defaultChecked := Some True\<rparr>"
  have h1: "CheckboxProps.checked ?p = None"
    by (simp add: plain_checkbox_def)
  have h2: "\<not> Checkbox_suppressed ?p"
    by (simp add: Checkbox_suppressed_def truthy_def plain_checkbox_def)
  have h3: "SwitchPrimitiveProps.checked ?s = None"
    by (simp add: plain_switch_def)
  have h4: "\<not> SwitchPrimitive_suppressed plain_formControl"
    by (simp add: SwitchPrimitive_suppressed_def SwitchPrimitive_readOnly_def
        SwitchPrimitive_disabled_def truthy_def plain_formControl_def)
  show ?thesis
    using h1 h2 h3 h4
      uncontrolled_checked_toggle [OF h1 h2 h3 h4, of Number_toString "change False" True "[]"
        click "SwitchPrimitive_createStore ?s" "[]" "[click, click, click]"]
    by (simp add: truthy_def change_def)
qed

text \<open>
  Claim C5 as the spec words it, that the first interaction that is not suppressed negates the
  resolved state, fails for the checkbox: it takes the state from the event. An uncontrolled,
  ungrouped checkbox that starts unchecked and receives a change event whose target is
  unchecked stays unchecked.
\<close>

theorem Checkbox_onChange_no_flip_counterexample:
  "CheckboxProps.checked plain_checkbox = None
   \<and> \<not> Checkbox_suppressed plain_checkbox
   \<and> Checkbox_checked Number_toString plain_checkbox None (Checkbox_checkedState_init plain_checkbox)
       = Some False
   \<and> Checkbox_checked Number_toString plain_checkbox None
        (state_after (Checkbox_onChange plain_checkbox None (change False)
           (Checkbox_checkedState_init plain_checkbox) []))
       = Some False"
  by (simp add: Checkbox_checked_def Checkbox_onChange_def Checkbox_suppressed_def
      Checkbox_isControlled_def Checkbox_checkedState_init_def truthy_def plain_defs)

text \<open>
  Claim C6. When a change event on a grouped checkbox is not suppressed, the item's
  \<^verbatim>\<open>onChange\<close> handler runs on the world the group's change handler has left, each of them
  if it is present and with the same event: the group's handler first, the item's second.
\<close>

theorem Checkbox_onChange_handler_order:
  assumes "\<not> Checkbox_suppressed props"
  shows "world_after (Checkbox_onChange props (Some ctx) event checkedState w)
           = callHandler (CheckboxProps.onChange props) event
               (callHandler (CheckboxGroupContext.onChange ctx) event w)"
  using assms by (simp add: Checkbox_onChange_def optional_chain_def)

text \<open>With handlers that log their names, the log reads group, item.\<close>

theorem Checkbox_onChange_handler_order_witness:
  "\<not> Checkbox_suppressed (plain_checkbox\<lparr>CheckboxProps.onChange := Some (logger ''item'')\<rparr>)
   \<and> world_after
        (Checkbox_onChange (plain_checkbox\<lparr>CheckboxProps.onChange := Some (logger ''item'')\<rparr>)
           (Some (plain_group\<lparr>CheckboxGroupContext.onChange := Some (logger ''group'')\<rparr>))
           (change True) False [])
       = [''group'', ''item'']"
proof -
  let ?p = "plain_checkbox\<lparr>CheckboxProps.onChange := Some (logger ''item'')\<rparr>"
  have h: "\<not> Checkbox_suppressed ?p"
    by (simp add: Checkbox_suppressed_def truthy_def plain_checkbox_def)
  show ?thesis
    using h
      Checkbox_onChange_handler_order [OF h,
        of "plain_group\<lparr>CheckboxGroupContext.onChange := Some (logger ''group'')\<rparr>"
        "change True" False "[]"]
    by (simp add: callHandler_def logger_def)
qed

section \<open>Attributes and the icon\<close>

text \<open>
  Claim C7, as the code has it. On the checkbox's input and on the switch's button, each of
  \<^verbatim>\<open>aria-required\<close>, \<^verbatim>\<open>aria-disabled\<close>, \<^verbatim>\<open>aria-invalid\<close> and \<^verbatim>\<open>aria-readonly\<close> has the value
  \<^verbatim>\<open>true\<close> when the resolved boolean is true and is left out otherwise. \<^verbatim>\<open>aria-checked\<close> is an
  attribute of the switch only, and it always has a value: the resolved checked state, true
  or false.
\<close>

theorem aria_attributes:
  "CheckboxInput.aria_required (Checkbox_input numstr props fc ctx checkedState)
     = (if Checkbox_required fc ctx = Some True then Some True else None)
   \<and> CheckboxInput.aria_disabled (Checkbox_input numstr props fc ctx checkedState)
     = (if Checkbox_disabled fc ctx = Some True then Some True else None)
   \<and> CheckboxInput.aria_invalid (Checkbox_input numstr props fc ctx checkedState)
     = (if Checkbox_invalid fc ctx = Some True then Some True else None)
   \<and> CheckboxInput.aria_readonly (Checkbox_input numstr props fc ctx checkedState)
     = (if Checkbox_readOnly fc ctx = Some True then Some True else None)
   \<and> SwitchButton.aria_required (SwitchPrimitive_button sprops fc store)
     = (if SwitchPrimitive_required fc = Some True then Some True else None)
   \<and> SwitchButton.aria_disabled (SwitchPrimitive_button sprops fc store)
     = (if SwitchPrimitive_disabled fc = Some True then Some True else None)
   \<and> SwitchButton.aria_invalid (SwitchPrimitive_button sprops fc store)
     = (if SwitchPrimitive_invalid fc = Some True then Some True else None)
   \<and> SwitchButton.aria_readonly (SwitchPrimitive_button sprops fc store)
     = (if SwitchPrimitive_readOnly fc = Some True then Some True else None)
   \<and> SwitchButton.aria_checked (SwitchPrimitive_button sprops fc store)
     = Some (SwitchPrimitive_checked sprops store)"
  by (simp add: Checkbox_input_def SwitchPrimitive_button_def aria_attr_cases
      Checkbox_ariaRequired_def Checkbox_ariaDisabled_def Checkbox_ariaInvalid_def
      Checkbox_ariaReadonly_def SwitchPrimitive_aria_required_def SwitchPrimitive_aria_disabled_def
      SwitchPrimitive_aria_invalid_def SwitchPrimitive_aria_readonly_def)

text \<open>
  Claim C7 as the spec words it, that \<^verbatim>\<open>aria-checked\<close> is left out when the resolved checked
  state is not true, fails: a switch with no prop set is unchecked, and its button has
  \<^verbatim>\<open>aria-checked\<close> with the value \<^verbatim>\<open>false\<close>.
\<close>

theorem SwitchPrimitive_aria_checked_counterexample:
  "SwitchPrimitive_checked plain_switch (SwitchPrimitive_createStore plain_switch) = False
   \<and> SwitchButton.aria_checked
        (SwitchPrimitive_button plain_switch plain_formControl (SwitchPrimitive_createStore plain_switch))
       = Some False
   \<and> SwitchButton.aria_checked
        (SwitchPrimitive_button plain_switch plain_formControl (SwitchPrimitive_createStore plain_switch))
       \<noteq> None"
  by (simp add: SwitchPrimitive_button_def SwitchPrimitive_checked_def SwitchPrimitive_isControlled_def
      SwitchPrimitive_createStore_def truthy_def plain_switch_def)

text \<open>
  Claim C8. The \<^verbatim>\<open>indeterminate\<close> prop has no effect on the resolved checked state, on the
  \<^verbatim>\<open>checked\<close> attribute of the input, or on what a change event does (the event, the internal
  state, the calls of the group's and the item's handlers). It selects the icon: the
  indeterminate icon when it is true; otherwise the checked icon when the resolved checked
  state is true; otherwise none.
\<close>

theorem Checkbox_indeterminate_independent:
  "Checkbox_checked numstr (props\<lparr>CheckboxProps.indeterminate := i\<rparr>) ctx checkedState
     = Checkbox_checked numstr props ctx checkedState
   \<and> CheckboxInput.checked
        (Checkbox_input numstr (props\<lparr>CheckboxProps.indeterminate := i\<rparr>) fc ctx checkedState)
     = Checkbox_checked numstr props ctx checkedState
   \<and> Checkbox_onChange (props\<lparr>CheckboxProps.indeterminate := i\<rparr>) ctx event checkedState w
     = Checkbox_onChange props ctx event checkedState w
   \<and> Checkbox_icon numstr props ctx checkedState
     = (if CheckboxProps.indeterminate props = Some True then Some iconIndeterminate
        else if Checkbox_checked numstr props ctx checkedState = Some True then Some iconChecked
        else None)"
proof -
  have a: "Checkbox_checked numstr (props\<lparr>CheckboxProps.indeterminate := i\<rparr>) ctx checkedState
             = Checkbox_checked numstr props ctx checkedState"
    by (auto simp: Checkbox_checked_def Checkbox_isControlled_def split: option.splits)
  have b: "Checkbox_onChange (props\<lparr>CheckboxProps.indeterminate := i\<rparr>) ctx event checkedState w
             = Checkbox_onChange props ctx event checkedState w"
    by (simp add: Checkbox_onChange_def Checkbox_suppressed_def Checkbox_isControlled_def)
  have c: "Checkbox_icon numstr props ctx checkedState
     = (if CheckboxProps.indeterminate props = Some True then Some iconIndeterminate
        else if Checkbox_checked numstr props ctx checkedState = Some True then Some iconChecked
        else None)"
    by (simp add: Checkbox_icon_def truthy_iff)
  show ?thesis
    using a b c by (simp add: Checkbox_input_def)
qed

section \<open>The context accessor and the keyboard handlers\<close>

text \<open>
  Claim C9. Called with no enclosing provider, \<^verbatim>\<open>useSwitcPrimitivehContext\<close> throws the error
  that names the accessor and the component it must be used within; called inside a
  provider, it returns the value of the innermost one.
\<close>

theorem useSwitcPrimitivehContext_result:
  "useSwitcPrimitivehContext []
     = Inl (Error ''[Hope UI]: useSwitcPrimitivehContext must be used within a `<SwitchPrimitive />` component'')
   \<and> useSwitcPrimitivehContext (c # outer) = Inr c"
  by (simp add: useSwitcPrimitivehContext_def useContext_def)

text \<open>
  Claim C10. The \<^verbatim>\<open>onKeyDown\<close> and \<^verbatim>\<open>onKeyUp\<close> handlers that \<^verbatim>\<open>createKeyboard\<close> returns leave
  the world as it is when \<^verbatim>\<open>isDisabled\<close> is true, whatever the user's handlers are; otherwise
  they call the user's handler of the same name with the same event when it is given, and do
  nothing when it is not.
\<close>

theorem createKeyboard_handlers:
  "keyboardElementProps.onKeyDown (keyboardProps (createKeyboard props)) event w
     = (if CreateKeyboardProps.isDisabled props = Some True then w
        else case CreateKeyboardProps.onKeyDown props of None \<Rightarrow> w | Some h \<Rightarrow> h event w)
   \<and> keyboardElementProps.onKeyUp (keyboardProps (createKeyboard props)) event w
     = (if CreateKeyboardProps.isDisabled props = Some True then w
        else case CreateKeyboardProps.onKeyUp props of None \<Rightarrow> w | Some h \<Rightarrow> h event w)"
  by (simp add: createKeyboard_def optional_call_def truthy_iff)

end
